theory Spec2Isabelle
  imports Complex_Main
begin

section \<open>Python values\<close>

text \<open>
  The importer copies whatever the metadata tool hands it (the JSON output of ExifTool,
  parsed by Python) into the fields of the model, so the fields hold dynamically typed
  values. A Python value is one of: \<open>None\<close>, a bool, an unbounded int, a float, a str or a
  list. A str is modelled as a HOL \<open>string\<close>, that is a Python str whose code points are all
  below 256.

  A float is an IEEE double: not-a-number, an infinity with its sign, or a finite value
  \<open>(-1)^s * m * 2^e\<close> kept as sign bit \<open>s\<close>, mantissa \<open>m\<close> and exponent \<open>e\<close> (so both zeros
  are there: \<open>Fin False 0 e\<close> and \<open>Fin True 0 e\<close>).
\<close>

datatype pyfloat = Fin bool nat int | Inf bool | NaN

datatype pyval =
    PNone
  | PBool bool
  | PInt int
  | PFloat pyfloat
  | PStr string
  | PList "pyval list"

text \<open>The exceptions the modelled code can meet.\<close>

datatype exn = ValueError | TypeError | OverflowError | ZeroDivisionError | IndexError | ToolError

section \<open>Python built-ins on strings and integers\<close>

text \<open>
  \<^verbatim>\<open>str.isspace\<close> on the code points below 256: TAB to CR, FS to US, SPACE, NEL and
  NBSP.
\<close>

definition is_space :: "char \<Rightarrow> bool" where
  "is_space c =
     ((9 \<le> (of_char c :: nat) \<and> (of_char c :: nat) \<le> 13)
      \<or> (28 \<le> (of_char c :: nat) \<and> (of_char c :: nat) \<le> 32)
      \<or> (of_char c :: nat) = 133 \<or> (of_char c :: nat) = 160)"

text \<open>
  The whitespace that \<^verbatim>\<open>int(s)\<close> ignores around the number is a smaller set: the
  separators FS to US are not in it.
\<close>

definition is_int_space :: "char \<Rightarrow> bool" where
  "is_int_space c =
     ((9 \<le> (of_char c :: nat) \<and> (of_char c :: nat) \<le> 13)
      \<or> (of_char c :: nat) = 32 \<or> (of_char c :: nat) = 133 \<or> (of_char c :: nat) = 160)"

text \<open>Removing the leading and the trailing characters of a class; \<^verbatim>\<open>s.strip()\<close>.\<close>

definition strip_by :: "(char \<Rightarrow> bool) \<Rightarrow> string \<Rightarrow> string" where
  "strip_by P s = rev (dropWhile P (rev (dropWhile P s)))"

definition py_strip :: "string \<Rightarrow> string" where
  "py_strip s = strip_by is_space s"

text \<open>\<^verbatim>\<open>s.split(sep)\<close> for a separator of one character: always at least one token.\<close>

fun py_split :: "char \<Rightarrow> string \<Rightarrow> string list" where
  "py_split sep [] = [[]]"
| "py_split sep (c # cs) =
     (if c = sep then [] # py_split sep cs
      else (case py_split sep cs of [] \<Rightarrow> [[c]] | t # ts \<Rightarrow> (c # t) # ts))"

text \<open>\<^verbatim>\<open>sep.join(parts)\<close>\<close>

fun py_join :: "'a list \<Rightarrow> 'a list list \<Rightarrow> 'a list" where
  "py_join sep [] = []"
| "py_join sep [t] = t"
| "py_join sep (t # u # ts) = t @ sep @ py_join sep (u # ts)"

text \<open>The decimal digits below code point 256 are the ASCII ones.\<close>

definition is_digit :: "char \<Rightarrow> bool" where
  "is_digit c = (48 \<le> (of_char c :: nat) \<and> (of_char c :: nat) \<le> 57)"

definition digit_val :: "char \<Rightarrow> nat" where
  "digit_val c = of_char c - 48"





text \<open>
  \<^verbatim>\<open>int(s)\<close> for a str: surrounding whitespace is ignored, then an optional sign, then
  decimal digits, where single underscores may stand between digits. \<open>None\<close> is the
  ValueError. \<open>parse_digits\<close> carries whether the previous character was a digit and the
  value read so far.
\<close>

fun parse_digits :: "bool \<Rightarrow> nat \<Rightarrow> string \<Rightarrow> nat option" where
  "parse_digits pd acc [] = (if pd then Some acc else None)"
| "parse_digits pd acc (c # cs) =
     (if is_digit c then parse_digits True (10 * acc + digit_val c) cs
      else if c = CHR ''_'' \<and> pd then parse_digits False acc cs
      else None)"

definition int_of_str :: "string \<Rightarrow> int option" where
  "int_of_str s =
     (case strip_by is_int_space s of
        [] \<Rightarrow> None
      | c # cs \<Rightarrow>
          if c = CHR ''-'' then map_option (\<lambda>n. - int n) (parse_digits False 0 cs)
          else if c = CHR ''+'' then map_option int (parse_digits False 0 cs)
          else map_option int (parse_digits False 0 (c # cs)))"

text \<open>
  \<^verbatim>\<open>int(f)\<close> for a float truncates a finite value toward zero, raises OverflowError on an
  infinity and ValueError on not-a-number.
\<close>

definition float_trunc :: "bool \<Rightarrow> nat \<Rightarrow> int \<Rightarrow> int" where
  "float_trunc s m e =
     (let mag = (if 0 \<le> e then int m * 2 ^ nat e else int m div 2 ^ nat (- e))
      in if s then - mag else mag)"

text \<open>\<^verbatim>\<open>int(v)\<close> for any value.\<close>

fun py_int :: "pyval \<Rightarrow> exn + int" where
  "py_int PNone = Inl TypeError"
| "py_int (PBool b) = Inr (if b then 1 else 0)"
| "py_int (PInt n) = Inr n"
| "py_int (PFloat (Fin s m e)) = Inr (float_trunc s m e)"
| "py_int (PFloat (Inf s)) = Inl OverflowError"
| "py_int (PFloat NaN) = Inl ValueError"
| "py_int (PStr s) = (case int_of_str s of None \<Rightarrow> Inl ValueError | Some n \<Rightarrow> Inr n)"
| "py_int (PList l) = Inl TypeError"

text \<open>
  \<^verbatim>\<open>[int(v) for v in vs]\<close>: the first conversion that raises ends the comprehension
  with its exception.
\<close>

fun ints_of :: "pyval list \<Rightarrow> exn + int list" where
  "ints_of [] = Inr []"
| "ints_of (v # vs) =
     (case py_int v of
        Inl e \<Rightarrow> Inl e
      | Inr n \<Rightarrow> (case ints_of vs of Inl e \<Rightarrow> Inl e | Inr ns \<Rightarrow> Inr (n # ns)))"

text \<open>\<^verbatim>\<open>not v\<close> is the negation of this: the truth value of a Python value.\<close>

fun truthy :: "pyval \<Rightarrow> bool" where
  "truthy PNone = False"
| "truthy (PBool b) = b"
| "truthy (PInt n) = (n \<noteq> 0)"
| "truthy (PFloat (Fin s m e)) = (m \<noteq> 0)"
| "truthy (PFloat (Inf s)) = True"
| "truthy (PFloat NaN) = True"
| "truthy (PStr s) = (s \<noteq> [])"
| "truthy (PList l) = (l \<noteq> [])"

section \<open>models.py\<close>

text \<open>
  \<^verbatim>\<open>@dataclass class ToneCurve: points: List[Tuple[int, int]]\<close>
\<close>

datatype ToneCurve = ToneCurve (points: "(int \<times> int) list")


text \<open>
  \<^verbatim>\<open>@dataclass class LightroomAdjustments\<close>: every scalar field defaults to \<open>None\<close>
  (\<open>PNone\<close>), the three band dictionaries to \<open>{}\<close>. The declared types
  (\<open>Optional[float]\<close>, \<open>Optional[int]\<close>) are annotations only; at run time a field holds
  what was assigned. \<open>tone_curve\<close> is only ever assigned the result of the tone-curve parser
  or a constructor argument, an \<open>Optional[ToneCurve]\<close>. The attributes \<open>tone_curve_red\<close>,
  \<open>tone_curve_green\<close>, \<open>tone_curve_blue\<close> are not declared by the dataclass: the importer
  creates them with \<open>setattr\<close>; here they are fields that stay \<open>PNone\<close> until set.
\<close>

record LightroomAdjustments =
  exposure :: pyval
  contrast :: pyval
  highlights :: pyval
  shadows :: pyval
  whites :: pyval
  blacks :: pyval
  temperature :: pyval
  tint :: pyval
  vibrance :: pyval
  saturation :: pyval
  clarity :: pyval
  dehaze :: pyval
  texture :: pyval
  tone_curve :: "ToneCurve option"
  sharpness :: pyval
  luminance_noise_reduction :: pyval
  color_noise_reduction :: pyval
  vignette_amount :: pyval
  grain_amount :: pyval
  hue_adjustments :: "string \<rightharpoonup> pyval"
  saturation_adjustments :: "string \<rightharpoonup> pyval"
  luminance_adjustments :: "string \<rightharpoonup> pyval"
  source_file :: pyval
  tone_curve_red :: pyval
  tone_curve_green :: pyval
  tone_curve_blue :: pyval

text \<open>\<^verbatim>\<open>LightroomAdjustments()\<close>: the dataclass defaults.\<close>

definition default_adjustments :: LightroomAdjustments where
  "default_adjustments =
     \<lparr> exposure = PNone, contrast = PNone, highlights = PNone, shadows = PNone,
       whites = PNone, blacks = PNone, temperature = PNone, tint = PNone,
       vibrance = PNone, saturation = PNone, clarity = PNone, dehaze = PNone,
       texture = PNone, tone_curve = None, sharpness = PNone,
       luminance_noise_reduction = PNone, color_noise_reduction = PNone,
       vignette_amount = PNone, grain_amount = PNone,
       hue_adjustments = Map.empty, saturation_adjustments = Map.empty,
       luminance_adjustments = Map.empty, source_file = PNone,
       tone_curve_red = PNone, tone_curve_green = PNone, tone_curve_blue = PNone \<rparr>"

text \<open>
  \<^verbatim>\<open>bool(self.tone_curve)\<close>: \<open>None\<close> is falsy; a \<open>ToneCurve\<close> instance is truthy whatever
  its points, since the dataclass defines neither \<open>__bool__\<close> nor \<open>__len__\<close>.
\<close>

definition bool_tone_curve :: "ToneCurve option \<Rightarrow> bool" where
  "bool_tone_curve t = (case t of None \<Rightarrow> False | Some c \<Rightarrow> True)"

text \<open>
  \<^verbatim>\<open>
  def has_adjustments(self) -> bool:
      basic_adjustments = [self.exposure, self.contrast, self.highlights, self.shadows,
          self.whites, self.blacks, self.temperature, self.tint, self.vibrance,
          self.saturation, self.clarity, self.dehaze, self.texture, self.sharpness]
      return any(adj is not None for adj in basic_adjustments) or bool(self.tone_curve)
  \<close>
\<close>

definition basic_adjustments :: "LightroomAdjustments \<Rightarrow> pyval list" where
  "basic_adjustments a =
     [exposure a, contrast a, highlights a, shadows a, whites a, blacks a,
      temperature a, tint a, vibrance a, saturation a, clarity a, dehaze a,
      texture a, sharpness a]"

definition has_adjustments :: "LightroomAdjustments \<Rightarrow> bool" where
  "has_adjustments a =
     (list_ex (\<lambda>adj. adj \<noteq> PNone) (basic_adjustments a) \<or> bool_tone_curve (tone_curve a))"

text \<open>
  The invariant in the words of the specification: some scalar field of the list is
  non-null, or the primary tone curve has at least one point.
\<close>

definition spec_has_adjustments :: "LightroomAdjustments \<Rightarrow> bool" where
  "spec_has_adjustments a =
     (exposure a \<noteq> PNone \<or> contrast a \<noteq> PNone \<or> highlights a \<noteq> PNone
      \<or> shadows a \<noteq> PNone \<or> whites a \<noteq> PNone \<or> blacks a \<noteq> PNone
      \<or> temperature a \<noteq> PNone \<or> tint a \<noteq> PNone \<or> vibrance a \<noteq> PNone
      \<or> saturation a \<noteq> PNone \<or> clarity a \<noteq> PNone \<or> dehaze a \<noteq> PNone
      \<or> texture a \<noteq> PNone \<or> sharpness a \<noteq> PNone
      \<or> (case tone_curve a of None \<Rightarrow> False | Some c \<Rightarrow> points c \<noteq> []))"

section \<open>metadata.py: the tone-curve parser\<close>

text \<open>
  The pairing loop of the parser,
  \<^verbatim>\<open>
  points = []
  for i in range(0, len(values), 2):
      if i + 1 < len(values):
          points.append((values[i], values[i + 1]))
  \<close>
  as a recursion on the index \<open>i\<close>.
\<close>

function pair_loop :: "int list \<Rightarrow> nat \<Rightarrow> (int \<times> int) list" where
  "pair_loop values i =
     (if i < length values
      then (if i + 1 < length values then [(values ! i, values ! (i + 1))] else [])
           @ pair_loop values (i + 2)
      else [])"
  by pat_completeness auto
termination
  by (relation "measure (\<lambda>(values, i). length values - i)") auto

declare pair_loop.simps [simp del]

text \<open>
  \<^verbatim>\<open>
  def _parse_tone_curve(self, curve_data: str | list) -> Optional[ToneCurve]:
      if not curve_data:
          return None
      try:
          if isinstance(curve_data, str):
              values = [int(v.strip()) for v in curve_data.split(",")]
          elif isinstance(curve_data, list):
              values = [int(v) for v in curve_data]
          else:
              return None
          points = [] ... (the pairing loop)
          return ToneCurve(points=points) if points else None
      except (ValueError, TypeError):
          return None
  \<close>
  \<open>Inr None\<close> is the returned \<open>None\<close>; \<open>Inl e\<close> is an exception that leaves the function.
\<close>

definition curve_values :: "pyval \<Rightarrow> (exn + int list) option" where
  "curve_values curve_data =
     (case curve_data of
        PStr s \<Rightarrow> Some (ints_of (map (\<lambda>v. PStr (py_strip v)) (py_split CHR '','' s)))
      | PList l \<Rightarrow> Some (ints_of l)
      | _ \<Rightarrow> None)"

definition parse_tone_curve :: "pyval \<Rightarrow> exn + ToneCurve option" where
  "parse_tone_curve curve_data =
     (if \<not> truthy curve_data then Inr None
      else (case curve_values curve_data of
              None \<Rightarrow> Inr None
            | Some (Inl e) \<Rightarrow> if e = ValueError \<or> e = TypeError then Inr None else Inl e
            | Some (Inr values) \<Rightarrow>
                (let points = pair_loop values 0
                 in Inr (if points = [] then None else Some (ToneCurve points)))))"

text \<open>Grouping a flat sequence into consecutive pairs, a trailing single value dropped.\<close>

fun pair_up :: "int list \<Rightarrow> (int \<times> int) list" where
  "pair_up (x # y # r) = (x, y) # pair_up r"
| "pair_up r = []"


section \<open>metadata.py: the importer\<close>

text \<open>
  \<^verbatim>\<open>LR_TAGS\<close>, in the order of the dictionary literal (the order in which
  \<^verbatim>\<open>LR_TAGS.items()\<close> is traversed).
\<close>

definition LR_TAGS :: "(string \<times> string) list" where
  "LR_TAGS =
     [(''XMP:Exposure2012'', ''exposure''),
      (''XMP:Contrast2012'', ''contrast''),
      (''XMP:Highlights2012'', ''highlights''),
      (''XMP:Shadows2012'', ''shadows''),
      (''XMP:Whites2012'', ''whites''),
      (''XMP:Blacks2012'', ''blacks''),
      (''XMP:Temperature'', ''temperature''),
      (''XMP:Tint'', ''tint''),
      (''XMP:Vibrance'', ''vibrance''),
      (''XMP:Saturation'', ''saturation''),
      (''XMP:Clarity2012'', ''clarity''),
      (''XMP:Dehaze'', ''dehaze''),
      (''XMP:Texture'', ''texture''),
      (''XMP:Sharpness'', ''sharpness''),
      (''XMP:LuminanceSmoothing'', ''luminance_noise_reduction''),
      (''XMP:ColorNoiseReduction'', ''color_noise_reduction''),
      (''XMP:PostCropVignetteAmount'', ''vignette_amount''),
      (''XMP:GrainAmount'', ''grain_amount''),
      (''XMP:ToneCurvePV2012'', ''tone_curve''),
      (''XMP:ToneCurvePV2012Red'', ''tone_curve_red''),
      (''XMP:ToneCurvePV2012Green'', ''tone_curve_green''),
      (''XMP:ToneCurvePV2012Blue'', ''tone_curve_blue'')]"

text \<open>
  \<^verbatim>\<open>setattr(adjustments, attr_name, value)\<close> for the attribute names of \<open>LR_TAGS\<close> other
  than \<open>tone_curve\<close>: the value is stored as it is.
\<close>

definition setattr_adj :: "string \<Rightarrow> pyval \<Rightarrow> LightroomAdjustments \<Rightarrow> LightroomAdjustments" where
  "setattr_adj attr_name v a =
     (if attr_name = ''exposure'' then a\<lparr>exposure := v\<rparr>
      else if attr_name = ''contrast'' then a\<lparr>contrast := v\<rparr>
      else if attr_name = ''highlights'' then a\<lparr>highlights := v\<rparr>
      else if attr_name = ''shadows'' then a\<lparr>shadows := v\<rparr>
      else if attr_name = ''whites'' then a\<lparr>whites := v\<rparr>
      else if attr_name = ''blacks'' then a\<lparr>blacks := v\<rparr>
      else if attr_name = ''temperature'' then a\<lparr>temperature := v\<rparr>
      else if attr_name = ''tint'' then a\<lparr>tint := v\<rparr>
      else if attr_name = ''vibrance'' then a\<lparr>vibrance := v\<rparr>
      else if attr_name = ''saturation'' then a\<lparr>saturation := v\<rparr>
      else if attr_name = ''clarity'' then a\<lparr>clarity := v\<rparr>
      else if attr_name = ''dehaze'' then a\<lparr>dehaze := v\<rparr>
      else if attr_name = ''texture'' then a\<lparr>texture := v\<rparr>
      else if attr_name = ''sharpness'' then a\<lparr>sharpness := v\<rparr>
      else if attr_name = ''luminance_noise_reduction'' then a\<lparr>luminance_noise_reduction := v\<rparr>
      else if attr_name = ''color_noise_reduction'' then a\<lparr>color_noise_reduction := v\<rparr>
      else if attr_name = ''vignette_amount'' then a\<lparr>vignette_amount := v\<rparr>
      else if attr_name = ''grain_amount'' then a\<lparr>grain_amount := v\<rparr>
      else if attr_name = ''tone_curve_red'' then a\<lparr>tone_curve_red := v\<rparr>
      else if attr_name = ''tone_curve_green'' then a\<lparr>tone_curve_green := v\<rparr>
      else if attr_name = ''tone_curve_blue'' then a\<lparr>tone_curve_blue := v\<rparr>
      else a)"

text \<open>
  The body of the loop over \<open>LR_TAGS\<close>:
  \<^verbatim>\<open>
  if xmp_tag in data:
      value = data[xmp_tag]
      if attr_name == "tone_curve":
          adjustments.tone_curve = self._parse_tone_curve(value)
      else:
          setattr(adjustments, attr_name, value)
  \<close>
  \<open>Inl e\<close> is an exception leaving the body; the adjustments are then as they were before
  the body ran.
\<close>

definition extract_tag ::
  "(string \<rightharpoonup> pyval) \<Rightarrow> string \<times> string \<Rightarrow> LightroomAdjustments \<Rightarrow> exn + LightroomAdjustments" where
  "extract_tag data t a =
     (case data (fst t) of
        None \<Rightarrow> Inr a
      | Some v \<Rightarrow>
          if snd t = ''tone_curve''
          then (case parse_tone_curve v of
                  Inl e \<Rightarrow> Inl e
                | Inr c \<Rightarrow> Inr (a\<lparr>tone_curve := c\<rparr>))
          else Inr (setattr_adj (snd t) v a))"

text \<open>
  The loop. The adjustments object is mutated in place, so an exception in one iteration
  leaves it with what the earlier iterations stored: the result is the exception caught
  by the handler of \<^verbatim>\<open>extract\<close>, if any, and the adjustments at that moment.
\<close>

fun extract_tags ::
  "(string \<rightharpoonup> pyval) \<Rightarrow> (string \<times> string) list \<Rightarrow> LightroomAdjustments
     \<Rightarrow> exn option \<times> LightroomAdjustments" where
  "extract_tags data [] a = (None, a)"
| "extract_tags data (t # ts) a =
     (case extract_tag data t a of
        Inl e \<Rightarrow> (Some e, a)
      | Inr a' \<Rightarrow> extract_tags data ts a')"

text \<open>
  \<^verbatim>\<open>s.lower()\<close> on the code points below 256: the ASCII capitals, and the Latin-1
  capitals (all of 192 to 222 but the multiplication sign 215), move up by 32.
\<close>

definition lower_char :: "char \<Rightarrow> char" where
  "lower_char c =
     (if (65 \<le> (of_char c :: nat) \<and> (of_char c :: nat) \<le> 90)
         \<or> (192 \<le> (of_char c :: nat) \<and> (of_char c :: nat) \<le> 222 \<and> (of_char c :: nat) \<noteq> 215)
      then char_of ((of_char c :: nat) + 32) else c)"

definition py_lower :: "string \<Rightarrow> string" where
  "py_lower s = map lower_char s"

definition colors :: "string list" where
  "colors = [''Red'', ''Orange'', ''Yellow'', ''Green'', ''Aqua'', ''Blue'', ''Purple'', ''Magenta'']"

text \<open>
  \<^verbatim>\<open>
  def _extract_hsl_adjustments(self, data, adjustments):
      for color in colors:
          hue_tag = f"XMP:HueAdjustment{color}"
          if hue_tag in data:
              adjustments.hue_adjustments[color.lower()] = data[hue_tag]
          ... the same for SaturationAdjustment and LuminanceAdjustment
  \<close>
\<close>

definition extract_hsl_color ::
  "(string \<rightharpoonup> pyval) \<Rightarrow> LightroomAdjustments \<Rightarrow> string \<Rightarrow> LightroomAdjustments" where
  "extract_hsl_color data a color =
     (let a1 = (case data (''XMP:HueAdjustment'' @ color) of
                  None \<Rightarrow> a
                | Some v \<Rightarrow> a\<lparr>hue_adjustments := (hue_adjustments a)(py_lower color \<mapsto> v)\<rparr>);
          a2 = (case data (''XMP:SaturationAdjustment'' @ color) of
                  None \<Rightarrow> a1
                | Some v \<Rightarrow>
                    a1\<lparr>saturation_adjustments := (saturation_adjustments a1)(py_lower color \<mapsto> v)\<rparr>)
      in (case data (''XMP:LuminanceAdjustment'' @ color) of
            None \<Rightarrow> a2
          | Some v \<Rightarrow>
              a2\<lparr>luminance_adjustments := (luminance_adjustments a2)(py_lower color \<mapsto> v)\<rparr>))"

definition extract_hsl_adjustments ::
  "(string \<rightharpoonup> pyval) \<Rightarrow> LightroomAdjustments \<Rightarrow> LightroomAdjustments" where
  "extract_hsl_adjustments data a = foldl (extract_hsl_color data) a colors"

text \<open>
  What \<^verbatim>\<open>ExifToolHelper().get_metadata(path)\<close> does is outside the repository: it raises,
  or it returns the metadata, which the code expects to be \<open>None\<close>, a list with one
  dictionary per file, or a dictionary. (Only exceptions derived from \<open>Exception\<close> are
  modelled; the handler does not catch a \<open>KeyboardInterrupt\<close>.)
\<close>

datatype metadata = MNone | MList "(string \<rightharpoonup> pyval) list" | MDict "string \<rightharpoonup> pyval"

datatype tool_result = Raises exn | Returns metadata

text \<open>\<^verbatim>\<open>not metadata\<close>\<close>

definition not_metadata :: "metadata \<Rightarrow> bool" where
  "not_metadata m = (case m of MNone \<Rightarrow> True | MList l \<Rightarrow> l = [] | MDict d \<Rightarrow> dom d = {})"

text \<open>
  \<^verbatim>\<open>
  def extract(self, image_path):
      image_path = Path(image_path)
      adjustments = LightroomAdjustments(source_file=str(image_path))
      try:
          with exiftool.ExifToolHelper() as et:
              metadata = et.get_metadata(str(image_path))
              if not metadata:
                  return adjustments
              data = metadata[0] if isinstance(metadata, list) else metadata
              for xmp_tag, attr_name in self.LR_TAGS.items(): ... (the loop)
              self._extract_hsl_adjustments(data, adjustments)
      except Exception as e:
          print(f"Error extracting metadata from {image_path}: {e}")
      return adjustments
  \<close>
  The model takes the outcome of the tool and the string \<^verbatim>\<open>str(Path(image_path))\<close>. It
  returns the exception that was caught and printed, if any, and the adjustments that
  are returned. No exception leaves \<^verbatim>\<open>extract\<close>: every one of the model is caught.
  (\<open>extract\<close> is a keyword of Isabelle, hence the name \<open>extract_adj\<close>.)
\<close>

definition extract_adj :: "tool_result \<Rightarrow> string \<Rightarrow> exn option \<times> LightroomAdjustments" where
  "extract_adj tool image_path =
     (let adjustments = default_adjustments\<lparr>source_file := PStr image_path\<rparr>
      in case tool of
           Raises e \<Rightarrow> (Some e, adjustments)
         | Returns metadata \<Rightarrow>
             if not_metadata metadata then (None, adjustments)
             else (let data = (case metadata of MList l \<Rightarrow> hd l | MDict d \<Rightarrow> d | MNone \<Rightarrow> Map.empty)
                   in case extract_tags data LR_TAGS adjustments of
                        (Some e, a) \<Rightarrow> (Some e, a)
                      | (None, a) \<Rightarrow> (None, extract_hsl_adjustments data a)))"

section \<open>Python built-ins on floats\<close>


text \<open>The integer nearest to \<open>p / q\<close>, a tie going to the even one.\<close>

definition round_half_even :: "nat \<Rightarrow> nat \<Rightarrow> nat" where
  "round_half_even p q =
     (let d = p div q; r = p mod q
      in if 2 * r < q then d
         else if q < 2 * r then d + 1
         else if even d then d
         else d + 1)"





text \<open>
  Arithmetic on floats is IEEE arithmetic: the exact result, rounded to the nearest
  double, ties to the even mantissa. \<open>double_of_ratio p q\<close> is the double nearest to the
  positive rational \<open>p / q\<close>, as mantissa and exponent: with \<open>floor_log2\<close> the exponent of
  the leading bit of \<open>p / q\<close>, the mantissa has 53 bits, or fewer for a subnormal result
  (the exponent of the last bit is never below -1074). \<open>None\<close> is the overflow: the rounded
  value is 2^1024 or more.
\<close>

function bitlen :: "nat \<Rightarrow> nat" where
  "bitlen n = (if n = 0 then 0 else Suc (bitlen (n div 2)))"
  by pat_completeness auto
termination
  by (relation "measure id") auto

declare bitlen.simps [simp del]

definition ratio_ge_pow2 :: "nat \<Rightarrow> nat \<Rightarrow> int \<Rightarrow> bool" where
  "ratio_ge_pow2 p q k = (if 0 \<le> k then q * 2 ^ nat k \<le> p else q \<le> p * 2 ^ nat (- k))"

definition floor_log2 :: "nat \<Rightarrow> nat \<Rightarrow> int" where
  "floor_log2 p q =
     (let k = int (bitlen p) - int (bitlen q)
      in if ratio_ge_pow2 p q k then k else k - 1)"

definition round_at :: "nat \<Rightarrow> nat \<Rightarrow> int \<Rightarrow> nat" where
  "round_at p q u =
     (if 0 \<le> u then round_half_even p (q * 2 ^ nat u) else round_half_even (p * 2 ^ nat (- u)) q)"

definition double_of_ratio :: "nat \<Rightarrow> nat \<Rightarrow> (nat \<times> int) option" where
  "double_of_ratio p q =
     (if p = 0 then Some (0, 0)
      else (let u = max (floor_log2 p q - 52) (- 1074);
                m = round_at p q u
            in if 0 \<le> u \<and> 2 ^ 1024 \<le> m * 2 ^ nat u then None else Some (m, u)))"

text \<open>
  \<^verbatim>\<open>a / b\<close> for two ints: the correctly rounded quotient; OverflowError ("integer
  division result too large for a float") when it is out of range.
\<close>

definition int_truediv :: "int \<Rightarrow> int \<Rightarrow> exn + pyfloat" where
  "int_truediv a b =
     (if b = 0 then Inl ZeroDivisionError
      else (case double_of_ratio (nat \<bar>a\<bar>) (nat \<bar>b\<bar>) of
              None \<Rightarrow> Inl OverflowError
            | Some (m, e) \<Rightarrow> Inr (Fin ((a < 0) \<noteq> (b < 0)) m e)))"

text \<open>
  The conversion of an int operand of a float operation; OverflowError ("int too large
  to convert to float") when it is out of range.
\<close>

definition float_of_int :: "int \<Rightarrow> exn + pyfloat" where
  "float_of_int k =
     (case double_of_ratio (nat \<bar>k\<bar>) 1 of
        None \<Rightarrow> Inl OverflowError
      | Some (m, e) \<Rightarrow> Inr (Fin (k < 0) m e))"

text \<open>
  \<^verbatim>\<open>f * g\<close> for two floats. It raises nothing: an overflow is an infinity, and zero
  times an infinity is not-a-number.
\<close>

fun float_mul :: "pyfloat \<Rightarrow> pyfloat \<Rightarrow> pyfloat" where
  "float_mul NaN g = NaN"
| "float_mul (Inf s) NaN = NaN"
| "float_mul (Fin s m e) NaN = NaN"
| "float_mul (Inf s) (Inf t) = Inf (s \<noteq> t)"
| "float_mul (Inf s) (Fin t n f) = (if n = 0 then NaN else Inf (s \<noteq> t))"
| "float_mul (Fin s m e) (Inf t) = (if m = 0 then NaN else Inf (s \<noteq> t))"
| "float_mul (Fin s m e) (Fin t n f) =
     (case (if 0 \<le> e + f then double_of_ratio (m * n * 2 ^ nat (e + f)) 1
            else double_of_ratio (m * n) (2 ^ nat (- (e + f)))) of
        None \<Rightarrow> Inf (s \<noteq> t)
      | Some (m', e') \<Rightarrow> Fin (s \<noteq> t) m' e')"

section \<open>xmp.py: the exporter\<close>

definition crs :: string where
  "crs = ''http://ns.adobe.com/camera-raw-settings/1.0/''"


text \<open>\<^verbatim>\<open>f"{{{crs}}}Name"\<close>\<close>

definition crs_tag :: "string \<Rightarrow> string" where
  "crs_tag name = ''{'' @ crs @ ''}'' @ name"















section \<open>widgets.py: the tone-curve preview\<close>

text \<open>
  The preview is a str with characters beyond code point 255, so here a str is the list
  of its code points, and a cell of the grid (a str of one character) is one code point.
\<close>

definition ustr :: "string \<Rightarrow> nat list" where
  "ustr s = map of_char s"

definition blank :: nat where "blank = 32"
definition vbar :: nat where "vbar = 9474"
definition hbar :: nat where "hbar = 9472"
definition corner :: nat where "corner = 9492"
definition dot :: nat where "dot = 9679"

definition width :: int where "width = 60"
definition height :: int where "height = 20"

text \<open>
  The body of the loop of \<^verbatim>\<open>_draw_line\<close> before its exit test:
  \<^verbatim>\<open>
  if 0 <= y1 < height and 0 <= x1 < width:
      if grid[y1][x1] == " " or grid[y1][x1] == "-":   (the horizontal bar U+2500)
          grid[y1][x1] = "*"                            (the point U+25CF)
  \<close>
  where \<open>height\<close> is \<^verbatim>\<open>len(grid)\<close> and \<open>width\<close> is \<^verbatim>\<open>len(grid[0])\<close>. A row shorter than the
  first one makes \<^verbatim>\<open>grid[y1][x1]\<close> raise IndexError.
\<close>

definition plot :: "nat list list \<Rightarrow> int \<Rightarrow> int \<Rightarrow> int \<Rightarrow> int \<Rightarrow> exn + nat list list" where
  "plot grid h w x1 y1 =
     (if 0 \<le> y1 \<and> y1 < h \<and> 0 \<le> x1 \<and> x1 < w
      then (if nat x1 < length (grid ! nat y1)
            then (if grid ! nat y1 ! nat x1 = blank \<or> grid ! nat y1 ! nat x1 = hbar
                  then Inr (grid[nat y1 := (grid ! nat y1)[nat x1 := dot]])
                  else Inr grid)
            else Inl IndexError)
      else Inr grid)"

text \<open>
  The loop of \<^verbatim>\<open>_draw_line\<close>:
  \<^verbatim>\<open>
  while True:
      ... (plot)
      if x1 == x2 and y1 == y2:
          break
      e2 = 2 * err
      if e2 > -dy:
          err -= dy
          x1 += sx
      if e2 < dx:
          err += dx
          y1 += sy
  \<close>
  \<open>None\<close> is the loop that never ends.
\<close>

partial_function (option) draw_loop ::
  "nat list list \<Rightarrow> int \<Rightarrow> int \<Rightarrow> int \<Rightarrow> int \<Rightarrow> int \<Rightarrow> int \<Rightarrow> int \<Rightarrow> int \<Rightarrow> int \<Rightarrow> int \<Rightarrow> int
     \<Rightarrow> (exn + nat list list) option" where
  "draw_loop grid h w x1 y1 x2 y2 dx dy sx sy err =
     (case plot grid h w x1 y1 of
        Inl e \<Rightarrow> Some (Inl e)
      | Inr g \<Rightarrow>
          if x1 = x2 \<and> y1 = y2 then Some (Inr g)
          else draw_loop g h w
                 (if 2 * err > - dy then x1 + sx else x1)
                 (if 2 * err < dx then y1 + sy else y1)
                 x2 y2 dx dy sx sy
                 ((if 2 * err > - dy then err - dy else err) + (if 2 * err < dx then dx else 0)))"

text \<open>
  \<^verbatim>\<open>
  def _draw_line(self, grid, x1, y1, x2, y2):
      dx = abs(x2 - x1)
      dy = abs(y2 - y1)
      sx = 1 if x1 < x2 else -1
      sy = 1 if y1 < y2 else -1
      err = dx - dy
      height = len(grid)
      width = len(grid[0])
      ... (the loop)
  \<close>
  The grid is mutated in place; the model returns the new grid.
\<close>

definition draw_line ::
  "nat list list \<Rightarrow> int \<Rightarrow> int \<Rightarrow> int \<Rightarrow> int \<Rightarrow> (exn + nat list list) option" where
  "draw_line grid x1 y1 x2 y2 =
     (case grid of
        [] \<Rightarrow> Some (Inl IndexError)
      | row # rows \<Rightarrow>
          draw_loop grid (int (length grid)) (int (length row)) x1 y1 x2 y2
            \<bar>x2 - x1\<bar> \<bar>y2 - y1\<bar> (if x1 < x2 then 1 else - 1) (if y1 < y2 then 1 else - 1)
            (\<bar>x2 - x1\<bar> - \<bar>y2 - y1\<bar>))"

text \<open>\<^verbatim>\<open>int((c / 255) * k)\<close> for an int coordinate \<open>c\<close> and an int \<open>k\<close>.\<close>

definition scaled :: "int \<Rightarrow> int \<Rightarrow> exn + int" where
  "scaled c k =
     (case int_truediv c 255 of
        Inl e \<Rightarrow> Inl e
      | Inr f \<Rightarrow> (case float_of_int k of
                    Inl e \<Rightarrow> Inl e
                  | Inr g \<Rightarrow> py_int (PFloat (float_mul f g))))"

text \<open>
  \<^verbatim>\<open>
  gx = int((x / 255) * (width - 2)) + 1
  gy = height - 2 - int((y / 255) * (height - 2))
  \<close>
\<close>

definition grid_x :: "int \<Rightarrow> exn + int" where
  "grid_x x = (case scaled x (width - 2) of Inl e \<Rightarrow> Inl e | Inr v \<Rightarrow> Inr (v + 1))"

definition grid_y :: "int \<Rightarrow> exn + int" where
  "grid_y y = (case scaled y (height - 2) of Inl e \<Rightarrow> Inl e | Inr v \<Rightarrow> Inr (height - 2 - v))"

text \<open>The four coordinates of a segment, computed in the order gx1, gy1, gx2, gy2.\<close>

definition segment :: "int \<times> int \<Rightarrow> int \<times> int \<Rightarrow> exn + (int \<times> int \<times> int \<times> int)" where
  "segment p1 p2 =
     (case grid_x (fst p1) of
        Inl e \<Rightarrow> Inl e
      | Inr gx1 \<Rightarrow>
          (case grid_y (snd p1) of
             Inl e \<Rightarrow> Inl e
           | Inr gy1 \<Rightarrow>
               (case grid_x (fst p2) of
                  Inl e \<Rightarrow> Inl e
                | Inr gx2 \<Rightarrow>
                    (case grid_y (snd p2) of
                       Inl e \<Rightarrow> Inl e
                     | Inr gy2 \<Rightarrow> Inr (gx1, gy1, gx2, gy2)))))"

text \<open>
  \<^verbatim>\<open>
  for i in range(len(points) - 1):
      x1, y1 = points[i]
      x2, y2 = points[i + 1]
      ... (the four coordinates)
      self._draw_line(grid, gx1, gy1, gx2, gy2)
  \<close>
\<close>

function render_loop ::
  "nat list list \<Rightarrow> (int \<times> int) list \<Rightarrow> nat \<Rightarrow> (exn + nat list list) option" where
  "render_loop grid pts i =
     (if i + 1 < length pts
      then (case segment (pts ! i) (pts ! (i + 1)) of
              Inl e \<Rightarrow> Some (Inl e)
            | Inr s \<Rightarrow>
                (case draw_line grid (fst s) (fst (snd s)) (fst (snd (snd s))) (snd (snd (snd s))) of
                   None \<Rightarrow> None
                 | Some (Inl e) \<Rightarrow> Some (Inl e)
                 | Some (Inr g) \<Rightarrow> render_loop g pts (i + 1)))
      else Some (Inr grid))"
  by pat_completeness auto
termination
  by (relation "measure (\<lambda>(grid, pts, i). length pts - i)") auto

declare render_loop.simps [simp del]

text \<open>
  \<^verbatim>\<open>
  grid = [[" " for _ in range(width)] for _ in range(height)]
  for y in range(height):
      grid[y][0] = "|"            (the vertical bar U+2502)
  for x in range(width):
      grid[height - 1][x] = "-"   (the horizontal bar U+2500)
  grid[height - 1][0] = "L"       (the corner U+2514)
  \<close>
  All these indices are inside the grid.
\<close>

definition set_cell :: "nat list list \<Rightarrow> nat \<Rightarrow> nat \<Rightarrow> nat \<Rightarrow> nat list list" where
  "set_cell grid y x c = grid[y := (grid ! y)[x := c]]"

definition axes_grid :: "nat list list" where
  "axes_grid =
     set_cell
       (foldl (\<lambda>g x. set_cell g (nat (height - 1)) x hbar)
          (foldl (\<lambda>g y. set_cell g y 0 vbar)
             (replicate (nat height) (replicate (nat width) blank))
             [0..<nat height])
          [0..<nat width])
       (nat (height - 1)) 0 corner"

text \<open>
  \<^verbatim>\<open>
  lines = ["".join(row) for row in grid]
  curve_str = "\n".join(lines)
  return (f"[bold cyan]Tone Curve[/bold cyan]\n" f"[dim]Output[/dim]\n" f"{curve_str}\n"
          f"{' ' * (width - 10)}[dim]Input[/dim]")
  \<close>
\<close>

definition render_text :: "nat list list \<Rightarrow> nat list" where
  "render_text grid =
     ustr ''[bold cyan]Tone Curve[/bold cyan]'' @ [10]
     @ ustr ''[dim]Output[/dim]'' @ [10]
     @ py_join [10] grid @ [10]
     @ replicate (nat (width - 10)) blank @ ustr ''[dim]Input[/dim]''"

definition placeholder :: "nat list" where
  "placeholder = ustr ''[dim]No tone curve adjustments[/dim]''"

text \<open>
  \<^verbatim>\<open>
  def render(self) -> str:
      if not self.tone_curve or not self.tone_curve.points:
          return "[dim]No tone curve adjustments[/dim]"
      ... (the grid, the loop over the points, the text)
  \<close>
  \<open>None\<close> is a rendering that never ends, \<open>Some (Inl e)\<close> one that raises \<open>e\<close>.
\<close>

definition render :: "ToneCurve option \<Rightarrow> (exn + nat list) option" where
  "render tc =
     (case tc of
        None \<Rightarrow> Some (Inr placeholder)
      | Some c \<Rightarrow>
          if points c = [] then Some (Inr placeholder)
          else (case render_loop axes_grid (points c) 0 of
                  None \<Rightarrow> None
                | Some (Inl e) \<Rightarrow> Some (Inl e)
                | Some (Inr g) \<Rightarrow> Some (Inr (render_text g))))"

text \<open>
  The state of the loop of \<^verbatim>\<open>_draw_line\<close> when \<open>rx\<close> steps in x and \<open>ry\<close> steps in y remain
  to the end point: the invariant of the loop.
\<close>

definition draw_inv ::
  "int \<Rightarrow> int \<Rightarrow> int \<Rightarrow> int \<Rightarrow> int \<Rightarrow> int \<Rightarrow> int \<Rightarrow> int \<Rightarrow> int \<Rightarrow> nat \<Rightarrow> nat \<Rightarrow> bool" where
  "draw_inv x1 y1 x2 y2 dx dy sx sy err rx ry =
     (0 \<le> dx \<and> 0 \<le> dy \<and> (sx = 1 \<or> sx = - 1) \<and> (sy = 1 \<or> sy = - 1)
      \<and> int rx \<le> dx \<and> int ry \<le> dy
      \<and> x2 = x1 + sx * int rx \<and> y2 = y1 + sy * int ry
      \<and> err = dx - dy + int rx * dy - int ry * dx)"

text \<open>A grid of \<open>h\<close> rows of \<open>w\<close> cells.\<close>

definition rect :: "nat \<Rightarrow> nat \<Rightarrow> nat list list \<Rightarrow> bool" where
  "rect h w grid = (length grid = h \<and> list_all (\<lambda>row. length row = w) grid)"

text \<open>
  \<open>drawn h w g g'\<close>: the grid \<open>g'\<close> is \<open>g\<close> with some cells that were blank or part of the
  horizontal axis turned into points, and nothing else changed.
\<close>

definition drawn :: "nat \<Rightarrow> nat \<Rightarrow> nat list list \<Rightarrow> nat list list \<Rightarrow> bool" where
  "drawn h w g g' =
     (rect h w g \<and> rect h w g'
      \<and> list_all (\<lambda>y. list_all (\<lambda>x. g' ! y ! x = g ! y ! x
                         \<or> (g' ! y ! x = dot \<and> (g ! y ! x = blank \<or> g ! y ! x = hbar))) [0..<w]) [0..<h])"

text \<open>The cell at integer coordinates is inside the grid and holds neither a blank nor the axis.\<close>

definition marked :: "nat \<Rightarrow> nat \<Rightarrow> nat list list \<Rightarrow> int \<Rightarrow> int \<Rightarrow> bool" where
  "marked h w g x y =
     (if 0 \<le> y \<and> y < int h \<and> 0 \<le> x \<and> x < int w
      then g ! nat y ! nat x \<noteq> blank \<and> g ! nat y ! nat x \<noteq> hbar
      else True)"

text \<open>
  The coordinate mapping in the words of the specification, with rounding to the
  nearest integer.
\<close>

definition spec_grid_x :: "int \<Rightarrow> int" where
  "spec_grid_x x = round (real_of_int x / 255 * real_of_int (width - 2)) + 1"

definition spec_grid_y :: "int \<Rightarrow> int" where
  "spec_grid_y y = (height - 2) - round (real_of_int y / 255 * real_of_int (height - 2))"

text \<open>
  The vocabulary of the importer's contract. \<open>tag_value\<close> is the value the tool gave for
  a tag, \<open>None\<close> for an absent tag. \<open>band_values\<close> is the mapping from the lower-cased band
  name to the value of the band's tag. \<open>curve_result\<close> is what the tone-curve parser does
  on the value of the tone-curve tag. \<open>imported\<close> is the adjustments object in which every
  field holds the value of its tag, the tone curve being \<open>c\<close>.
\<close>

definition tag_value :: "(string \<rightharpoonup> pyval) \<Rightarrow> string \<Rightarrow> pyval" where
  "tag_value data tag = (case data tag of None \<Rightarrow> PNone | Some v \<Rightarrow> v)"

definition band_values :: "(string \<rightharpoonup> pyval) \<Rightarrow> string \<Rightarrow> (string \<rightharpoonup> pyval)" where
  "band_values data prefix =
     (\<lambda>k. case List.find (\<lambda>c. py_lower c = k) colors of
            None \<Rightarrow> None
          | Some c \<Rightarrow> data (prefix @ c))"

definition curve_result :: "(string \<rightharpoonup> pyval) \<Rightarrow> (exn + ToneCurve option)" where
  "curve_result data =
     (case data ''XMP:ToneCurvePV2012'' of None \<Rightarrow> Inr None | Some v \<Rightarrow> parse_tone_curve v)"

definition imported :: "(string \<rightharpoonup> pyval) \<Rightarrow> ToneCurve option \<Rightarrow> string \<Rightarrow> LightroomAdjustments" where
  "imported data c p =
     \<lparr> exposure = tag_value data ''XMP:Exposure2012'',
       contrast = tag_value data ''XMP:Contrast2012'',
       highlights = tag_value data ''XMP:Highlights2012'',
       shadows = tag_value data ''XMP:Shadows2012'',
       whites = tag_value data ''XMP:Whites2012'',
       blacks = tag_value data ''XMP:Blacks2012'',
       temperature = tag_value data ''XMP:Temperature'',
       tint = tag_value data ''XMP:Tint'',
       vibrance = tag_value data ''XMP:Vibrance'',
       saturation = tag_value data ''XMP:Saturation'',
       clarity = tag_value data ''XMP:Clarity2012'',
       dehaze = tag_value data ''XMP:Dehaze'',
       texture = tag_value data ''XMP:Texture'',
       tone_curve = c,
       sharpness = tag_value data ''XMP:Sharpness'',
       luminance_noise_reduction = tag_value data ''XMP:LuminanceSmoothing'',
       color_noise_reduction = tag_value data ''XMP:ColorNoiseReduction'',
       vignette_amount = tag_value data ''XMP:PostCropVignetteAmount'',
       grain_amount = tag_value data ''XMP:GrainAmount'',
       hue_adjustments = band_values data ''XMP:HueAdjustment'',
       saturation_adjustments = band_values data ''XMP:SaturationAdjustment'',
       luminance_adjustments = band_values data ''XMP:LuminanceAdjustment'',
       source_file = PStr p,
       tone_curve_red = tag_value data ''XMP:ToneCurvePV2012Red'',
       tone_curve_green = tag_value data ''XMP:ToneCurvePV2012Green'',
       tone_curve_blue = tag_value data ''XMP:ToneCurvePV2012Blue'' \<rparr>"

text \<open>
  Two abbreviations for the proofs: a field after one iteration of the loop over the
  tags, and a band dictionary after one conditional assignment.
\<close>

definition tag_or :: "(string \<rightharpoonup> pyval) \<Rightarrow> string \<Rightarrow> pyval \<Rightarrow> pyval" where
  "tag_or data tag d = (case data tag of None \<Rightarrow> d | Some v \<Rightarrow> v)"

definition upd_or :: "(string \<rightharpoonup> pyval) \<Rightarrow> string \<Rightarrow> string \<Rightarrow> (string \<rightharpoonup> pyval) \<Rightarrow> (string \<rightharpoonup> pyval)" where
  "upd_or data tag k m = (case data tag of None \<Rightarrow> m | Some v \<Rightarrow> m(k \<mapsto> v))"




text \<open>
  The numeric sequence of a comma-separated string: each token read as the parser reads
  it (\<^verbatim>\<open>int(v.strip())\<close>), \<open>None\<close> for a token that does not parse.
\<close>

definition token_values :: "string \<Rightarrow> int option list" where
  "token_values s = map (\<lambda>v. int_of_str (py_strip v)) (py_split CHR '','' s)"

section \<open>The adjustment predicate\<close>

text \<open>
  C2, as stated, fails: a present tone curve with no points,
  \<^verbatim>\<open>LightroomAdjustments(tone_curve=ToneCurve(points=[]))\<close>, has no scalar field and no
  point, and \<open>has_adjustments()\<close> is true for it.
\<close>

theorem has_adjustments_empty_curve_counterexample:
  "has_adjustments (default_adjustments\<lparr>tone_curve := Some (ToneCurve [])\<rparr>)
   \<and> \<not> spec_has_adjustments (default_adjustments\<lparr>tone_curve := Some (ToneCurve [])\<rparr>)"
  by (simp add: has_adjustments_def spec_has_adjustments_def basic_adjustments_def
      bool_tone_curve_def default_adjustments_def)

text \<open>
  C2, amended: \<open>has_adjustments()\<close> is true if and only if one of the fourteen scalar
  fields exposure, contrast, highlights, shadows, whites, blacks, temperature, tint,
  vibrance, saturation, clarity, dehaze, texture, sharpness is non-null, or the primary
  tone curve is present (non-null, whatever its number of points). The band mappings and
  the noise-reduction, vignette and grain fields have no influence on it; with only those
  set it is false.
\<close>

theorem has_adjustments_iff:
  "(has_adjustments a \<longleftrightarrow>
      (exposure a \<noteq> PNone \<or> contrast a \<noteq> PNone \<or> highlights a \<noteq> PNone
       \<or> shadows a \<noteq> PNone \<or> whites a \<noteq> PNone \<or> blacks a \<noteq> PNone
       \<or> temperature a \<noteq> PNone \<or> tint a \<noteq> PNone \<or> vibrance a \<noteq> PNone
       \<or> saturation a \<noteq> PNone \<or> clarity a \<noteq> PNone \<or> dehaze a \<noteq> PNone
       \<or> texture a \<noteq> PNone \<or> sharpness a \<noteq> PNone
       \<or> tone_curve a \<noteq> None))
   \<and> has_adjustments
        (a\<lparr>hue_adjustments := h, saturation_adjustments := s, luminance_adjustments := l,
           luminance_noise_reduction := lnr, color_noise_reduction := cnr,
           vignette_amount := v, grain_amount := g\<rparr>) = has_adjustments a
   \<and> \<not> has_adjustments
        (default_adjustments\<lparr>hue_adjustments := h, saturation_adjustments := s,
           luminance_adjustments := l, luminance_noise_reduction := lnr,
           color_noise_reduction := cnr, vignette_amount := v, grain_amount := g\<rparr>)"
proof (intro conjI)
  show "has_adjustments a \<longleftrightarrow>
      (exposure a \<noteq> PNone \<or> contrast a \<noteq> PNone \<or> highlights a \<noteq> PNone
       \<or> shadows a \<noteq> PNone \<or> whites a \<noteq> PNone \<or> blacks a \<noteq> PNone
       \<or> temperature a \<noteq> PNone \<or> tint a \<noteq> PNone \<or> vibrance a \<noteq> PNone
       \<or> saturation a \<noteq> PNone \<or> clarity a \<noteq> PNone \<or> dehaze a \<noteq> PNone
       \<or> texture a \<noteq> PNone \<or> sharpness a \<noteq> PNone
       \<or> tone_curve a \<noteq> None)"
    unfolding has_adjustments_def basic_adjustments_def bool_tone_curve_def
    by (cases "tone_curve a") auto
qed (simp_all add: has_adjustments_def basic_adjustments_def bool_tone_curve_def
      default_adjustments_def)

theorem has_adjustments_iff_witness:
  "has_adjustments (default_adjustments\<lparr>exposure := PFloat (Fin False 3 (-1))\<rparr>)
   \<and> has_adjustments (default_adjustments\<lparr>tone_curve := Some (ToneCurve [(0, 0), (255, 255)])\<rparr>)
   \<and> \<not> has_adjustments default_adjustments
   \<and> \<not> has_adjustments (default_adjustments\<lparr>hue_adjustments := [''red'' \<mapsto> PInt 10]\<rparr>)"
  using has_adjustments_iff [of "default_adjustments\<lparr>exposure := PFloat (Fin False 3 (-1))\<rparr>"]
    has_adjustments_iff [of "default_adjustments\<lparr>tone_curve := Some (ToneCurve [(0, 0), (255, 255)])\<rparr>"]
    has_adjustments_iff [of default_adjustments]
    has_adjustments_iff [of "default_adjustments\<lparr>hue_adjustments := [''red'' \<mapsto> PInt 10]\<rparr>"]
  by (simp add: default_adjustments_def)


section \<open>Decimal strings\<close>


























lemma pair_loop_drop: "pair_loop vs i = pair_up (drop i vs)"
proof (induction vs i rule: pair_loop.induct)
  case (1 vs i)
  show ?case
  proof (cases "i < length vs")
    case False
    then show ?thesis by (subst pair_loop.simps) simp
  next
    case True
    then obtain x r where d: "drop i vs = x # r" "x = vs ! i" "r = drop (Suc i) vs"
      by (metis Cons_nth_drop_Suc)
    show ?thesis
    proof (cases "i + 1 < length vs")
      case False
      with True have "r = []" using d by simp
      with True False "1.IH" show ?thesis
        by (subst pair_loop.simps) (simp add: d)
    next
      case t: True
      then obtain y r' where d': "r = y # r'" "y = vs ! (i + 1)" "r' = drop (i + 2) vs"
        using d by (metis Cons_nth_drop_Suc Suc_eq_plus1 add_2_eq_Suc')
      with True t "1.IH" show ?thesis
        by (subst pair_loop.simps) (simp add: d)
    qed
  qed
qed






lemma ints_of_map_Some:
  "map (\<lambda>v. int_of_str (py_strip v)) ts = map Some vs \<Longrightarrow>
   ints_of (map (\<lambda>v. PStr (py_strip v)) ts) = Inr vs"
proof (induction ts arbitrary: vs)
  case Nil
  then show ?case by simp
next
  case (Cons t ts)
  then obtain v r where "vs = v # r" by (cases vs) auto
  with Cons show ?case by auto
qed



section \<open>The tone-curve codec\<close>




text \<open>
  What the parser does on a string, in full: it never raises; it returns \<open>None\<close> for the
  empty string and when a token does not parse; otherwise it returns the consecutive
  pairs of the integer sequence, a trailing single value dropped, and \<open>None\<close> when there
  is no pair.
\<close>

lemma ints_of_fail:
  "None \<in> set (map (\<lambda>v. int_of_str (py_strip v)) ts) \<Longrightarrow>
   ints_of (map (\<lambda>v. PStr (py_strip v)) ts) = Inl ValueError"
proof (induction ts)
  case Nil
  then show ?case by simp
next
  case (Cons t ts)
  show ?case
  proof (cases "int_of_str (py_strip t)")
    case None
    then show ?thesis by simp
  next
    case (Some n)
    with Cons show ?thesis by auto
  qed
qed

lemma parse_tone_curve_string:
  "parse_tone_curve (PStr s) =
     (if s = [] \<or> None \<in> set (token_values s) then Inr None
      else if pair_up (map the (token_values s)) = [] then Inr None
      else Inr (Some (ToneCurve (pair_up (map the (token_values s))))))"
proof (cases "s = [] \<or> None \<in> set (token_values s)")
  case True
  then show ?thesis
    using ints_of_fail [of "py_split CHR '','' s"]
    by (auto simp: parse_tone_curve_def curve_values_def token_values_def)
next
  case False
  have "map (\<lambda>x. Some (the x)) (token_values s) = token_values s"
  proof (rule map_idI)
    fix x assume "x \<in> set (token_values s)"
    with False show "Some (the x) = x" by (cases x) auto
  qed
  then have "token_values s = map Some (map the (token_values s))"
    by (simp add: comp_def)
  then have "curve_values (PStr s) = Some (Inr (map the (token_values s)))"
    using ints_of_map_Some [of "py_split CHR '','' s" "map the (token_values s)"]
    by (simp add: curve_values_def token_values_def)
  with False show ?thesis
    by (simp add: parse_tone_curve_def pair_loop_drop)
qed

lemma parse_tone_curve_odd_example:
  "parse_tone_curve (PStr ''0,0,10'') = Inr (Some (ToneCurve [(0, 0)]))"
  by code_simp

text \<open>
  C7: the claim asks for "no curve", not an error, whenever a token fails to parse as an
  integer. For a list input the parser converts with \<^verbatim>\<open>int(v)\<close> and catches
  \<^verbatim>\<open>(ValueError, TypeError)\<close> only; \<^verbatim>\<open>int(float('inf'))\<close> raises OverflowError, which
  leaves the parser.
\<close>

theorem parse_tone_curve_inf_raises:
  "parse_tone_curve (PList [PFloat (Inf False), PInt 0]) = Inl OverflowError"
  by (simp add: parse_tone_curve_def curve_values_def)


section \<open>The importer\<close>


lemma tag_or_PNone: "tag_or data tag PNone = tag_value data tag"
  by (simp add: tag_or_def tag_value_def)

lemma extract_tag_steps:
  "extract_tag data (''XMP:Exposure2012'', ''exposure'') a =
     Inr (a\<lparr>exposure := tag_or data ''XMP:Exposure2012'' (exposure a)\<rparr>)"
  "extract_tag data (''XMP:Contrast2012'', ''contrast'') a =
     Inr (a\<lparr>contrast := tag_or data ''XMP:Contrast2012'' (contrast a)\<rparr>)"
  "extract_tag data (''XMP:Highlights2012'', ''highlights'') a =
     Inr (a\<lparr>highlights := tag_or data ''XMP:Highlights2012'' (highlights a)\<rparr>)"
  "extract_tag data (''XMP:Shadows2012'', ''shadows'') a =
     Inr (a\<lparr>shadows := tag_or data ''XMP:Shadows2012'' (shadows a)\<rparr>)"
  "extract_tag data (''XMP:Whites2012'', ''whites'') a =
     Inr (a\<lparr>whites := tag_or data ''XMP:Whites2012'' (whites a)\<rparr>)"
  "extract_tag data (''XMP:Blacks2012'', ''blacks'') a =
     Inr (a\<lparr>blacks := tag_or data ''XMP:Blacks2012'' (blacks a)\<rparr>)"
  "extract_tag data (''XMP:Temperature'', ''temperature'') a =
     Inr (a\<lparr>temperature := tag_or data ''XMP:Temperature'' (temperature a)\<rparr>)"
  "extract_tag data (''XMP:Tint'', ''tint'') a =
     Inr (a\<lparr>tint := tag_or data ''XMP:Tint'' (tint a)\<rparr>)"
  "extract_tag data (''XMP:Vibrance'', ''vibrance'') a =
     Inr (a\<lparr>vibrance := tag_or data ''XMP:Vibrance'' (vibrance a)\<rparr>)"
  "extract_tag data (''XMP:Saturation'', ''saturation'') a =
     Inr (a\<lparr>saturation := tag_or data ''XMP:Saturation'' (saturation a)\<rparr>)"
  "extract_tag data (''XMP:Clarity2012'', ''clarity'') a =
     Inr (a\<lparr>clarity := tag_or data ''XMP:Clarity2012'' (clarity a)\<rparr>)"
  "extract_tag data (''XMP:Dehaze'', ''dehaze'') a =
     Inr (a\<lparr>dehaze := tag_or data ''XMP:Dehaze'' (dehaze a)\<rparr>)"
  "extract_tag data (''XMP:Texture'', ''texture'') a =
     Inr (a\<lparr>texture := tag_or data ''XMP:Texture'' (texture a)\<rparr>)"
  "extract_tag data (''XMP:Sharpness'', ''sharpness'') a =
     Inr (a\<lparr>sharpness := tag_or data ''XMP:Sharpness'' (sharpness a)\<rparr>)"
  "extract_tag data (''XMP:LuminanceSmoothing'', ''luminance_noise_reduction'') a =
     Inr (a\<lparr>luminance_noise_reduction := tag_or data ''XMP:LuminanceSmoothing'' (luminance_noise_reduction a)\<rparr>)"
  "extract_tag data (''XMP:ColorNoiseReduction'', ''color_noise_reduction'') a =
     Inr (a\<lparr>color_noise_reduction := tag_or data ''XMP:ColorNoiseReduction'' (color_noise_reduction a)\<rparr>)"
  "extract_tag data (''XMP:PostCropVignetteAmount'', ''vignette_amount'') a =
     Inr (a\<lparr>vignette_amount := tag_or data ''XMP:PostCropVignetteAmount'' (vignette_amount a)\<rparr>)"
  "extract_tag data (''XMP:GrainAmount'', ''grain_amount'') a =
     Inr (a\<lparr>grain_amount := tag_or data ''XMP:GrainAmount'' (grain_amount a)\<rparr>)"
  "extract_tag data (''XMP:ToneCurvePV2012Red'', ''tone_curve_red'') a =
     Inr (a\<lparr>tone_curve_red := tag_or data ''XMP:ToneCurvePV2012Red'' (tone_curve_red a)\<rparr>)"
  "extract_tag data (''XMP:ToneCurvePV2012Green'', ''tone_curve_green'') a =
     Inr (a\<lparr>tone_curve_green := tag_or data ''XMP:ToneCurvePV2012Green'' (tone_curve_green a)\<rparr>)"
  "extract_tag data (''XMP:ToneCurvePV2012Blue'', ''tone_curve_blue'') a =
     Inr (a\<lparr>tone_curve_blue := tag_or data ''XMP:ToneCurvePV2012Blue'' (tone_curve_blue a)\<rparr>)"
  by (simp_all add: extract_tag_def setattr_adj_def tag_or_def split: option.splits)

lemma extract_tag_curve:
  "extract_tag data (''XMP:ToneCurvePV2012'', ''tone_curve'') a =
     (case data ''XMP:ToneCurvePV2012'' of
        None \<Rightarrow> Inr a
      | Some v \<Rightarrow> (case parse_tone_curve v of
                     Inl e \<Rightarrow> Inl e
                   | Inr c \<Rightarrow> Inr (a\<lparr>tone_curve := c\<rparr>)))"
  by (simp add: extract_tag_def split: option.splits)

lemma lower_colors:
  "map py_lower colors = [''red'', ''orange'', ''yellow'', ''green'', ''aqua'', ''blue'', ''purple'', ''magenta'']"
  by code_simp

lemma extract_tags_ok:
  assumes "curve_result data = Inr c"
  shows "extract_tags data LR_TAGS (default_adjustments\<lparr>source_file := PStr p\<rparr>)
     = (None, (imported data c p)\<lparr>hue_adjustments := Map.empty,
          saturation_adjustments := Map.empty, luminance_adjustments := Map.empty\<rparr>)"
proof (cases "data ''XMP:ToneCurvePV2012''")
  case None
  with assms have "c = None" by (simp add: curve_result_def)
  with None show ?thesis
    by (simp add: LR_TAGS_def extract_tag_steps extract_tag_curve imported_def
        default_adjustments_def tag_or_PNone)
next
  case (Some v)
  with assms have "parse_tone_curve v = Inr c" by (simp add: curve_result_def)
  with Some show ?thesis
    by (simp add: LR_TAGS_def extract_tag_steps extract_tag_curve imported_def
        default_adjustments_def tag_or_PNone)
qed


lemma upd_or_apply:
  "upd_or data tag k m k' = (if k' = k \<and> data tag \<noteq> None then data tag else m k')"
  by (simp add: upd_or_def split: option.splits)

lemma extract_hsl_color_eq:
  "extract_hsl_color data a color =
     a\<lparr>hue_adjustments :=
         upd_or data (''XMP:HueAdjustment'' @ color) (py_lower color) (hue_adjustments a),
       saturation_adjustments :=
         upd_or data (''XMP:SaturationAdjustment'' @ color) (py_lower color) (saturation_adjustments a),
       luminance_adjustments :=
         upd_or data (''XMP:LuminanceAdjustment'' @ color) (py_lower color) (luminance_adjustments a)\<rparr>"
  by (simp add: extract_hsl_color_def upd_or_def Let_def split: option.splits)

lemma py_lower_colors:
  "py_lower ''Red'' = ''red''" "py_lower ''Orange'' = ''orange''"
  "py_lower ''Yellow'' = ''yellow''" "py_lower ''Green'' = ''green''"
  "py_lower ''Aqua'' = ''aqua''" "py_lower ''Blue'' = ''blue''"
  "py_lower ''Purple'' = ''purple''" "py_lower ''Magenta'' = ''magenta''"
  by code_simp+

lemma band_values_apply:
  "band_values data prefix k =
     (if k = ''red'' then data (prefix @ ''Red'')
      else if k = ''orange'' then data (prefix @ ''Orange'')
      else if k = ''yellow'' then data (prefix @ ''Yellow'')
      else if k = ''green'' then data (prefix @ ''Green'')
      else if k = ''aqua'' then data (prefix @ ''Aqua'')
      else if k = ''blue'' then data (prefix @ ''Blue'')
      else if k = ''purple'' then data (prefix @ ''Purple'')
      else if k = ''magenta'' then data (prefix @ ''Magenta'')
      else None)"
  unfolding band_values_def colors_def
  by (simp add: py_lower_colors eq_commute [of _ k])

lemma chain_band_values:
  "upd_or data (prefix @ ''Magenta'') ''magenta''
    (upd_or data (prefix @ ''Purple'') ''purple''
     (upd_or data (prefix @ ''Blue'') ''blue''
      (upd_or data (prefix @ ''Aqua'') ''aqua''
       (upd_or data (prefix @ ''Green'') ''green''
        (upd_or data (prefix @ ''Yellow'') ''yellow''
         (upd_or data (prefix @ ''Orange'') ''orange''
          (upd_or data (prefix @ ''Red'') ''red'' Map.empty)))))))
   = band_values data prefix"
proof
  fix k
  show "upd_or data (prefix @ ''Magenta'') ''magenta''
    (upd_or data (prefix @ ''Purple'') ''purple''
     (upd_or data (prefix @ ''Blue'') ''blue''
      (upd_or data (prefix @ ''Aqua'') ''aqua''
       (upd_or data (prefix @ ''Green'') ''green''
        (upd_or data (prefix @ ''Yellow'') ''yellow''
         (upd_or data (prefix @ ''Orange'') ''orange''
          (upd_or data (prefix @ ''Red'') ''red'' Map.empty))))))) k
   = band_values data prefix k"
    by (simp add: upd_or_apply band_values_apply)
qed

lemma extract_hsl_adjustments_eq:
  assumes "hue_adjustments a = Map.empty" "saturation_adjustments a = Map.empty"
    "luminance_adjustments a = Map.empty"
  shows "extract_hsl_adjustments data a =
     a\<lparr>hue_adjustments := band_values data ''XMP:HueAdjustment'',
       saturation_adjustments := band_values data ''XMP:SaturationAdjustment'',
       luminance_adjustments := band_values data ''XMP:LuminanceAdjustment''\<rparr>"
  using chain_band_values [of data "''XMP:HueAdjustment''"]
    chain_band_values [of data "''XMP:SaturationAdjustment''"]
    chain_band_values [of data "''XMP:LuminanceAdjustment''"]
  by (simp add: extract_hsl_adjustments_def colors_def extract_hsl_color_eq py_lower_colors assms)


lemma extract_adj_ok:
  assumes "m = MList (data # rest) \<or> (m = MDict data \<and> dom data \<noteq> {})"
    and "curve_result data = Inr c"
  shows "extract_adj (Returns m) p = (None, imported data c p)"
proof -
  have n: "\<not> not_metadata m" using assms(1) by (auto simp: not_metadata_def)
  have d: "(case m of MList l \<Rightarrow> hd l | MDict d \<Rightarrow> d | MNone \<Rightarrow> Map.empty) = data"
    using assms(1) by auto
  let ?a = "(imported data c p)\<lparr>hue_adjustments := Map.empty,
          saturation_adjustments := Map.empty, luminance_adjustments := Map.empty\<rparr>"
  have h: "extract_hsl_adjustments data ?a = imported data c p"
    by (subst extract_hsl_adjustments_eq) (simp_all add: imported_def)
  show ?thesis
    unfolding extract_adj_def Let_def
    by (simp add: n d extract_tags_ok [OF assms(2)] h)
qed

lemma extract_adj_fail:
  assumes "tool = Raises e \<or> (tool = Returns m \<and> not_metadata m)"
  shows "snd (extract_adj tool p) = default_adjustments\<lparr>source_file := PStr p\<rparr>"
  using assms by (auto simp: extract_adj_def)

text \<open>
  C5, as stated, fails: the adjustments returned after a failure of the tool are built by
  \<^verbatim>\<open>LightroomAdjustments(source_file=str(image_path))\<close>, so the field \<open>source_file\<close> is
  not null.
\<close>

theorem extract_source_file_counterexample:
  "source_file (snd (extract_adj (Raises ToolError) ''photo.jpg'')) = PStr ''photo.jpg''
   \<and> source_file (snd (extract_adj (Raises ToolError) ''photo.jpg'')) \<noteq> PNone"
  by (simp add: extract_adj_def)

text \<open>
  C5, amended: if the invocation of the metadata tool raises, or returns nothing (\<open>None\<close>,
  an empty list or an empty dictionary), \<^verbatim>\<open>extract\<close> returns (and does not raise) the
  adjustments in which every scalar field and the tone curve are null and the three band
  mappings are empty; only \<open>source_file\<close> is set, to the path.
\<close>

theorem extract_tool_failure:
  assumes "tool = Raises e \<or> (tool = Returns m \<and> not_metadata m)"
  shows "snd (extract_adj tool p) = default_adjustments\<lparr>source_file := PStr p\<rparr>"
  using assms by (rule extract_adj_fail)

theorem extract_tool_failure_witness:
  "snd (extract_adj (Raises ToolError) ''photo.jpg'') = default_adjustments\<lparr>source_file := PStr ''photo.jpg''\<rparr>
   \<and> not_metadata (MList [])
   \<and> snd (extract_adj (Returns (MList [])) ''photo.jpg'') = default_adjustments\<lparr>source_file := PStr ''photo.jpg''\<rparr>
   \<and> not_metadata MNone
   \<and> snd (extract_adj (Returns MNone) ''photo.jpg'') = default_adjustments\<lparr>source_file := PStr ''photo.jpg''\<rparr>"
  using extract_tool_failure [of "Raises ToolError" ToolError MNone "''photo.jpg''"]
    extract_tool_failure [of "Returns (MList [])" ToolError "MList []" "''photo.jpg''"]
    extract_tool_failure [of "Returns MNone" ToolError MNone "''photo.jpg''"]
  by (simp add: not_metadata_def)

text \<open>
  C6, as stated, fails: the value of a scalar tag is stored without any check, so a
  malformed one (here a string that is no number, for \<open>contrast\<close>) is not skipped and its
  field does not stay null.
\<close>

theorem extract_malformed_scalar_counterexample:
  "contrast (snd (extract_adj (Returns (MList [[''XMP:Contrast2012'' \<mapsto> PStr ''abc'']])) ''a.jpg''))
     = PStr ''abc''
   \<and> contrast (snd (extract_adj (Returns (MList [[''XMP:Contrast2012'' \<mapsto> PStr ''abc'']])) ''a.jpg''))
     \<noteq> PNone"
proof -
  have "curve_result [''XMP:Contrast2012'' \<mapsto> PStr ''abc''] = Inr None"
    by (simp add: curve_result_def)
  then have "extract_adj (Returns (MList [[''XMP:Contrast2012'' \<mapsto> PStr ''abc'']])) ''a.jpg''
      = (None, imported [''XMP:Contrast2012'' \<mapsto> PStr ''abc''] None ''a.jpg'')"
    by (intro extract_adj_ok) simp_all
  then show ?thesis by (simp add: imported_def tag_value_def)
qed

text \<open>
  C6, amended: for every tag mapping on whose tone-curve tag the parser returns (a curve,
  or \<open>None\<close> under its discard rule for a malformed value), \<^verbatim>\<open>extract\<close> does not fail and
  logs nothing; every present scalar tag is copied into its field as it is, whatever its
  type (a malformed scalar is stored, not skipped), the tone curve is what the parser
  returned, and every band tag is imported under its lower-cased band name.
\<close>

theorem extract_copies_tags:
  assumes "m = MList (data # rest) \<or> (m = MDict data \<and> dom data \<noteq> {})"
    and "curve_result data = Inr c"
  shows "extract_adj (Returns m) p = (None, imported data c p)"
  using assms by (rule extract_adj_ok)

theorem extract_copies_tags_witness:
  "curve_result [''XMP:Contrast2012'' \<mapsto> PStr ''abc'', ''XMP:Exposure2012'' \<mapsto> PInt 1,
      ''XMP:ToneCurvePV2012'' \<mapsto> PStr ''0, 0, x'', ''XMP:HueAdjustmentRed'' \<mapsto> PInt 10] = Inr None
   \<and> extract_adj (Returns (MList [[''XMP:Contrast2012'' \<mapsto> PStr ''abc'', ''XMP:Exposure2012'' \<mapsto> PInt 1,
      ''XMP:ToneCurvePV2012'' \<mapsto> PStr ''0, 0, x'', ''XMP:HueAdjustmentRed'' \<mapsto> PInt 10]])) ''a.jpg''
     = (None, default_adjustments\<lparr>contrast := PStr ''abc'', exposure := PInt 1,
          hue_adjustments := [''red'' \<mapsto> PInt 10], source_file := PStr ''a.jpg''\<rparr>)"
proof -
  let ?data = "[''XMP:Contrast2012'' \<mapsto> PStr ''abc'', ''XMP:Exposure2012'' \<mapsto> PInt 1,
      ''XMP:ToneCurvePV2012'' \<mapsto> PStr ''0, 0, x'', ''XMP:HueAdjustmentRed'' \<mapsto> PInt 10]"
  have p: "parse_tone_curve (PStr ''0, 0, x'') = Inr None" by code_simp
  have c: "curve_result ?data = Inr None" by (simp add: curve_result_def p)
  have b: "band_values ?data ''XMP:HueAdjustment'' = [''red'' \<mapsto> PInt 10]"
    "band_values ?data ''XMP:SaturationAdjustment'' = Map.empty"
    "band_values ?data ''XMP:LuminanceAdjustment'' = Map.empty"
    by (auto simp: fun_eq_iff band_values_apply)
  have "imported ?data None ''a.jpg'' = default_adjustments\<lparr>contrast := PStr ''abc'', exposure := PInt 1,
          hue_adjustments := [''red'' \<mapsto> PInt 10], source_file := PStr ''a.jpg''\<rparr>"
    by (simp add: imported_def b tag_value_def default_adjustments_def)
  then show ?thesis
    using extract_copies_tags [of "MList [?data]" ?data "[]" None "''a.jpg''"] c
    by simp
qed


section \<open>The exporter\<close>


lemma crs_tag_inj [simp]: "crs_tag a = crs_tag b \<longleftrightarrow> a = b"
  by (simp add: crs_tag_def)
















section \<open>Export, then import\<close>
















end
